theory Spec2Isabelle
  imports Complex_Main "HOL-Library.Word"
begin

section \<open>The prediction front end (streamlit\_app.py)\<close>

text \<open>
  The script is a Streamlit page: it reads eleven wavelength labels from the header
  row of a data file, asks the API server for its models, renders eleven numeric
  inputs and, on a button press, posts them to the server and shows the answer.

  Everything the script receives from outside is an input of the model (record
  \<open>env\<close>): the outcome of \<open>pd.read_csv\<close>, of \<open>requests.get\<close> and
  \<open>requests.post\<close>, the user's selection, the field values and the button.
  Everything it does to the outside is an event of a trace: the Streamlit calls and
  the two HTTP requests. A Python exception is a value; a computation returns either
  an exception or a result, together with the events it produced up to that point.
\<close>

subsection \<open>Text of the messages\<close>

text \<open>
  A Python string is modelled by its UTF-8 bytes. The script's messages are Korean;
  the bytes below are those of the string literals of the source, in source order.
\<close>

definition msg_not_eleven :: string where
  "msg_not_eleven = [CHR 0xED, CHR 0x8C, CHR 0x8C, CHR 0xEC, CHR 0x9E, CHR 0xA5] @ '' ''
     @ [CHR 0xEB, CHR 0x8D, CHR 0xB0, CHR 0xEC, CHR 0x9D, CHR 0xB4, CHR 0xED, CHR 0x84, CHR 0xB0]
     @ '' '' @ [CHR 0xEB, CHR 0xA1, CHR 0x9C, CHR 0xEB, CHR 0x94, CHR 0xA9] @ '' ''
     @ [CHR 0xEC, CHR 0x98, CHR 0xA4, CHR 0xEB, CHR 0xA5, CHR 0x98] @ '': 11''
     @ [CHR 0xEA, CHR 0xB0, CHR 0x9C] @ '' ''
     @ [CHR 0xED, CHR 0x8C, CHR 0x8C, CHR 0xEC, CHR 0x9E, CHR 0xA5, CHR 0xEC, CHR 0x9D, CHR 0xB4]
     @ '' ''
     @ [CHR 0xEC, CHR 0x95, CHR 0x84, CHR 0xEB, CHR 0x8B, CHR 0x99, CHR 0xEB, CHR 0x8B, CHR 0x88, CHR 0xEB, CHR 0x8B, CHR 0xA4]
     @ ''.''"

definition msg_not_found_pre :: string where
  "msg_not_found_pre = [CHR 0x27]"

definition msg_not_found_post :: string where
  "msg_not_found_post = [CHR 0x27] @ '' ''
     @ [CHR 0xED, CHR 0x8C, CHR 0x8C, CHR 0xEC, CHR 0x9D, CHR 0xBC] @ '' ''
     @ [CHR 0xEC, CHR 0xB0, CHR 0xBE, CHR 0xEA, CHR 0xB8, CHR 0xB0] @ '' ''
     @ [CHR 0xEC, CHR 0x8B, CHR 0xA4, CHR 0xED, CHR 0x8C, CHR 0xA8] @ ''. ''
     @ [CHR 0xEA, CHR 0xB8, CHR 0xB0, CHR 0xEB, CHR 0xB3, CHR 0xB8] @ '' ''
     @ [CHR 0xEB, CHR 0xA0, CHR 0x88, CHR 0xEC, CHR 0x9D, CHR 0xB4, CHR 0xEB, CHR 0xB8, CHR 0x94]
     @ '' '' @ [CHR 0xEC, CHR 0x82, CHR 0xAC, CHR 0xEC, CHR 0x9A, CHR 0xA9] @ ''.''"

definition msg_label :: string where
  "msg_label = [CHR 0xED, CHR 0x8C, CHR 0x8C, CHR 0xEC, CHR 0x9E, CHR 0xA5] @ '' ''"

definition msg_load_pre :: string where
  "msg_load_pre = [CHR 0xED, CHR 0x8C, CHR 0x8C, CHR 0xEC, CHR 0x9E, CHR 0xA5] @ '' ''
     @ [CHR 0xEB, CHR 0xA1, CHR 0x9C, CHR 0xEB, CHR 0x94, CHR 0xA9] @ '' ''
     @ [CHR 0xEC, CHR 0x98, CHR 0xA4, CHR 0xEB, CHR 0xA5, CHR 0x98] @ '': ''"

definition msg_load_post :: string where
  "msg_load_post = ''. '' @ [CHR 0xEA, CHR 0xB8, CHR 0xB0, CHR 0xEB, CHR 0xB3, CHR 0xB8]
     @ '' ''
     @ [CHR 0xEB, CHR 0xA0, CHR 0x88, CHR 0xEC, CHR 0x9D, CHR 0xB4, CHR 0xEB, CHR 0xB8, CHR 0x94]
     @ '' '' @ [CHR 0xEC, CHR 0x82, CHR 0xAC, CHR 0xEC, CHR 0x9A, CHR 0xA9] @ ''.''"

definition msg_models_failed :: string where
  "msg_models_failed = ''API ''
     @ [CHR 0xEC, CHR 0x84, CHR 0x9C, CHR 0xEB, CHR 0xB2, CHR 0x84, CHR 0xEC, CHR 0x97, CHR 0x90, CHR 0xEC, CHR 0x84, CHR 0x9C]
     @ '' '' @ [CHR 0xEB, CHR 0xAA, CHR 0xA8, CHR 0xEB, CHR 0x8D, CHR 0xB8] @ '' ''
     @ [CHR 0xEB, CHR 0xAA, CHR 0xA9, CHR 0xEB, CHR 0xA1, CHR 0x9D, CHR 0xEC, CHR 0x9D, CHR 0x84]
     @ '' ''
     @ [CHR 0xEA, CHR 0xB0, CHR 0x80, CHR 0xEC, CHR 0xA0, CHR 0xB8, CHR 0xEC, CHR 0x98, CHR 0xA4, CHR 0xEB, CHR 0x8A, CHR 0x94]
     @ '' '' @ [CHR 0xEB, CHR 0x8D, CHR 0xB0] @ '' ''
     @ [CHR 0xEC, CHR 0x8B, CHR 0xA4, CHR 0xED, CHR 0x8C, CHR 0xA8, CHR 0xED, CHR 0x96, CHR 0x88, CHR 0xEC, CHR 0x8A, CHR 0xB5, CHR 0xEB, CHR 0x8B, CHR 0x88, CHR 0xEB, CHR 0x8B, CHR 0xA4]
     @ '': ''"

definition msg_page_title :: string where
  "msg_page_title = ''Te ''
     @ [CHR 0xEC, CHR 0x98, CHR 0x88, CHR 0xEC, CHR 0xB8, CHR 0xA1, CHR 0xEA, CHR 0xB8, CHR 0xB0]"

definition msg_title :: string where
  "msg_title =
     [CHR 0xED, CHR 0x94, CHR 0x8C, CHR 0xEB, CHR 0x9D, CHR 0xBC, CHR 0xEC, CHR 0xA6, CHR 0x88, CHR 0xEB, CHR 0xA7, CHR 0x88]
     @ '' '' @ [CHR 0xEC, CHR 0xA0, CHR 0x84, CHR 0xEC, CHR 0x9E, CHR 0x90] @ '' ''
     @ [CHR 0xEC, CHR 0x98, CHR 0xA8, CHR 0xEB, CHR 0x8F, CHR 0x84] @ '' (Te) ''
     @ [CHR 0xEC, CHR 0x98, CHR 0x88, CHR 0xEC, CHR 0xB8, CHR 0xA1]"

definition msg_select_model :: string where
  "msg_select_model =
     [CHR 0xEC, CHR 0x82, CHR 0xAC, CHR 0xEC, CHR 0x9A, CHR 0xA9, CHR 0xED, CHR 0x95, CHR 0xA0]
     @ '' '' @ [CHR 0xEB, CHR 0xAA, CHR 0xA8, CHR 0xEB, CHR 0x8D, CHR 0xB8] @ '' ''
     @ [CHR 0xEC, CHR 0x84, CHR 0xA0, CHR 0xED, CHR 0x83, CHR 0x9D] @ '':''"

definition msg_subheader :: string where
  "msg_subheader = [CHR 0xEA, CHR 0xB0, CHR 0x81] @ '' ''
     @ [CHR 0xED, CHR 0x8C, CHR 0x8C, CHR 0xEC, CHR 0x9E, CHR 0xA5, CHR 0xEC, CHR 0x97, CHR 0x90, CHR 0xEC, CHR 0x84, CHR 0x9C, CHR 0xEC, CHR 0x9D, CHR 0x98]
     @ '' '' @ [CHR 0xEB, CHR 0xB9, CHR 0x9B, CHR 0xEC, CHR 0x9D, CHR 0x98] @ '' ''
     @ [CHR 0xEC, CHR 0x84, CHR 0xB8, CHR 0xEA, CHR 0xB8, CHR 0xB0] @ ''(Intensity) ''
     @ [CHR 0xEC, CHR 0x9E, CHR 0x85, CHR 0xEB, CHR 0xA0, CHR 0xA5] @ '':''"

definition msg_button :: string where
  "msg_button = [CHR 0xEC, CHR 0xA0, CHR 0x84, CHR 0xEC, CHR 0x9E, CHR 0x90] @ '' ''
     @ [CHR 0xEC, CHR 0x98, CHR 0xA8, CHR 0xEB, CHR 0x8F, CHR 0x84] @ '' ''
     @ [CHR 0xEC, CHR 0x98, CHR 0x88, CHR 0xEC, CHR 0xB8, CHR 0xA1, CHR 0xED, CHR 0x95, CHR 0x98, CHR 0xEA, CHR 0xB8, CHR 0xB0]"

definition msg_requesting :: string where
  "msg_requesting = ''API ''
     @ [CHR 0xEC, CHR 0x84, CHR 0x9C, CHR 0xEB, CHR 0xB2, CHR 0x84, CHR 0xEC, CHR 0x97, CHR 0x90]
     @ '' '' @ [CHR 0xEC, CHR 0x98, CHR 0x88, CHR 0xEC, CHR 0xB8, CHR 0xA1] @ '' ''
     @ [CHR 0xEC, CHR 0x9A, CHR 0x94, CHR 0xEC, CHR 0xB2, CHR 0xAD] @ '' ''
     @ [CHR 0xEC, CHR 0xA4, CHR 0x91] @ ''...''"

definition msg_predicted_pre :: string where
  "msg_predicted_pre =
     [CHR 0xEC, CHR 0x98, CHR 0x88, CHR 0xEC, CHR 0xB8, CHR 0xA1, CHR 0xEB, CHR 0x90, CHR 0x9C]
     @ '' '' @ [CHR 0xEC, CHR 0xA0, CHR 0x84, CHR 0xEC, CHR 0x9E, CHR 0x90] @ '' ''
     @ [CHR 0xEC, CHR 0x98, CHR 0xA8, CHR 0xEB, CHR 0x8F, CHR 0x84] @ '' (Te): ''"

definition msg_predicted_post :: string where
  "msg_predicted_post = '' (eV?)''"

definition msg_model_used :: string where
  "msg_model_used =
     [CHR 0xEC, CHR 0x82, CHR 0xAC, CHR 0xEC, CHR 0x9A, CHR 0xA9, CHR 0xEB, CHR 0x90, CHR 0x9C]
     @ '' '' @ [CHR 0xEB, CHR 0xAA, CHR 0xA8, CHR 0xEB, CHR 0x8D, CHR 0xB8] @ '': ''"

definition msg_call_failed :: string where
  "msg_call_failed = ''API '' @ [CHR 0xED, CHR 0x98, CHR 0xB8, CHR 0xEC, CHR 0xB6, CHR 0x9C]
     @ '' '' @ [CHR 0xEC, CHR 0x8B, CHR 0xA4, CHR 0xED, CHR 0x8C, CHR 0xA8] @ '': ''"

definition msg_no_detail :: string where
  "msg_no_detail = [CHR 0xEC, CHR 0x83, CHR 0x81, CHR 0xEC, CHR 0x84, CHR 0xB8] @ '' ''
     @ [CHR 0xEC, CHR 0xA0, CHR 0x95, CHR 0xEB, CHR 0xB3, CHR 0xB4] @ '' ''
     @ [CHR 0xEC, CHR 0x97, CHR 0x86, CHR 0xEC, CHR 0x9D, CHR 0x8C]"

definition msg_server_reply :: string where
  "msg_server_reply = [CHR 0xEC, CHR 0x84, CHR 0x9C, CHR 0xEB, CHR 0xB2, CHR 0x84] @ '' ''
     @ [CHR 0xEC, CHR 0x9D, CHR 0x91, CHR 0xEB, CHR 0x8B, CHR 0xB5] @ '': ''"

definition msg_unexpected :: string where
  "msg_unexpected = [CHR 0xEC, CHR 0x98, CHR 0x88, CHR 0xEC, CHR 0xB8, CHR 0xA1] @ '' ''
     @ [CHR 0xEC, CHR 0xB2, CHR 0x98, CHR 0xEB, CHR 0xA6, CHR 0xAC] @ '' ''
     @ [CHR 0xEC, CHR 0xA4, CHR 0x91] @ '' ''
     @ [CHR 0xEC, CHR 0x98, CHR 0x88, CHR 0xEC, CHR 0x83, CHR 0x81, CHR 0xEC, CHR 0xB9, CHR 0x98]
     @ '' '' @ [CHR 0xEB, CHR 0xAA, CHR 0xBB, CHR 0xED, CHR 0x95, CHR 0x9C] @ '' ''
     @ [CHR 0xEC, CHR 0x98, CHR 0xA4, CHR 0xEB, CHR 0xA5, CHR 0x98] @ '' ''
     @ [CHR 0xEB, CHR 0xB0, CHR 0x9C, CHR 0xEC, CHR 0x83, CHR 0x9D] @ '': ''"

definition msg_cannot_load :: string where
  "msg_cannot_load = [CHR 0xED, CHR 0x8C, CHR 0x8C, CHR 0xEC, CHR 0x9E, CHR 0xA5] @ '' ''
     @ [CHR 0xEC, CHR 0xA0, CHR 0x95, CHR 0xEB, CHR 0xB3, CHR 0xB4, CHR 0xEB, CHR 0xA5, CHR 0xBC]
     @ '' ''
     @ [CHR 0xEB, CHR 0xA1, CHR 0x9C, CHR 0xEB, CHR 0x93, CHR 0x9C, CHR 0xED, CHR 0x95, CHR 0xA0]
     @ '' '' @ [CHR 0xEC, CHR 0x88, CHR 0x98] @ '' ''
     @ [CHR 0xEC, CHR 0x97, CHR 0x86, CHR 0xEC, CHR 0x96, CHR 0xB4] @ '' ''
     @ [CHR 0xEC, CHR 0x9E, CHR 0x85, CHR 0xEB, CHR 0xA0, CHR 0xA5, CHR 0xEC, CHR 0x9D, CHR 0x84]
     @ '' ''
     @ [CHR 0xEC, CHR 0xA7, CHR 0x84, CHR 0xED, CHR 0x96, CHR 0x89, CHR 0xED, CHR 0x95, CHR 0xA0]
     @ '' '' @ [CHR 0xEC, CHR 0x88, CHR 0x98] @ '' ''
     @ [CHR 0xEC, CHR 0x97, CHR 0x86, CHR 0xEC, CHR 0x8A, CHR 0xB5, CHR 0xEB, CHR 0x8B, CHR 0x88, CHR 0xEB, CHR 0x8B, CHR 0xA4]
     @ ''.''"

definition msg_sidebar_header :: string where
  "msg_sidebar_header = ''API '' @ [CHR 0xEC, CHR 0x84, CHR 0x9C, CHR 0xEB, CHR 0xB2, CHR 0x84]
     @ '' '' @ [CHR 0xEC, CHR 0xA0, CHR 0x95, CHR 0xEB, CHR 0xB3, CHR 0xB4]"

definition msg_sidebar_url :: string where
  "msg_sidebar_url =
     [CHR 0xEB, CHR 0xB0, CHR 0xB1, CHR 0xEC, CHR 0x97, CHR 0x94, CHR 0xEB, CHR 0x93, CHR 0x9C]
     @ '' API '' @ [CHR 0xEC, CHR 0xA3, CHR 0xBC, CHR 0xEC, CHR 0x86, CHR 0x8C] @ '': ''"

definition msg_sidebar_info :: string where
  "msg_sidebar_info = ''FastAPI ''
     @ [CHR 0xEC, CHR 0x84, CHR 0x9C, CHR 0xEB, CHR 0xB2, CHR 0x84, CHR 0xEA, CHR 0xB0, CHR 0x80]
     @ '' '' @ [CHR 0xEB, CHR 0xA8, CHR 0xBC, CHR 0xEC, CHR 0xA0, CHR 0x80] @ '' ''
     @ [CHR 0xEC, CHR 0x8B, CHR 0xA4, CHR 0xED, CHR 0x96, CHR 0x89] @ '' ''
     @ [CHR 0xEC, CHR 0xA4, CHR 0x91, CHR 0xEC, CHR 0x9D, CHR 0xB4, CHR 0xEC, CHR 0x96, CHR 0xB4, CHR 0xEC, CHR 0x95, CHR 0xBC]
     @ '' ''
     @ [CHR 0xED, CHR 0x95, CHR 0xA9, CHR 0xEB, CHR 0x8B, CHR 0x88, CHR 0xEB, CHR 0x8B, CHR 0xA4]
     @ '' ('' @ [CHR 0x60] @ ''uvicorn main:app --reload'' @ [CHR 0x60] @ '').''"

definition API_BASE_URL :: string where
  "API_BASE_URL = ''http://127.0.0.1:8000''"

subsection \<open>Python values\<close>

text \<open>
  A Python float is an IEEE double: a finite value (the rational it denotes exactly;
  \<open>Finite 0\<close> is \<open>+0.0\<close>), negative zero, an infinity or a NaN.
\<close>

datatype pyfloat = Finite rat | NegZero | PosInf | NegInf | NaN

text \<open>
  A cell of the data frame that \<open>pd.read_csv\<close> returns: pandas infers the type of
  each column from its tokens, so a cell is a string (\<open>object\<close> column, a token that
  pandas leaves as text), a \<open>float64\<close>, an \<open>int64\<close> (a word read as a signed
  number), a \<open>uint64\<close> (an integer token from \<open>2 ^ 63\<close> to \<open>2 ^ 64 - 1\<close>; a word
  read as an unsigned number) or a \<open>bool\<close>. The labels the loader returns are such
  cells as well: Python floats, Python strings or the raw cells.
\<close>

datatype cell =
    CStr string
  | CFloat pyfloat
  | CInt "64 word"
  | CUInt "64 word"
  | CBool bool

text \<open>
  The value of \<open>response.json()\<close>. A dict is an association list; a key is looked
  up with \<open>map_of\<close>.
\<close>

datatype json =
    JNull
  | JBool bool
  | JInt int
  | JFloat pyfloat
  | JStr string
  | JArr "json list"
  | JObj "(string \<times> json) list"

subsection \<open>Exceptions\<close>

text \<open>
  The exception classes the script distinguishes or meets. \<open>RequestException\<close>
  stands for \<open>requests.exceptions.RequestException\<close> and every subclass of it
  (\<open>ConnectionError\<close>, \<open>HTTPError\<close>, \<open>Timeout\<close>, the \<open>JSONDecodeError\<close> of
  requests, ...); \<open>OtherException\<close> for any other subclass of \<open>Exception\<close>;
  \<open>KeyboardInterrupt\<close> for the exceptions that derive from \<open>BaseException\<close>
  only, which \<open>except Exception\<close> does not catch and a bare \<open>except:\<close> does.
  An exception carries the text that \<open>str(e)\<close> gives.
\<close>

datatype exn_class =
    FileNotFoundError | ValueError | TypeError | KeyError | IndexError | NameError
  | AttributeError | OverflowError | RequestException | OtherException
  | KeyboardInterrupt

datatype pyexn = PyExn exn_class string

fun exn_class_of :: "pyexn \<Rightarrow> exn_class" where
  "exn_class_of (PyExn c m) = c"

fun exn_str :: "pyexn \<Rightarrow> string" where
  "exn_str (PyExn c m) = m"

definition is_Exception :: "pyexn \<Rightarrow> bool" where
  "is_Exception e = (exn_class_of e \<noteq> KeyboardInterrupt)"

definition is_RequestException :: "pyexn \<Rightarrow> bool" where
  "is_RequestException e = (exn_class_of e = RequestException)"

definition is_FileNotFoundError :: "pyexn \<Rightarrow> bool" where
  "is_FileNotFoundError e = (exn_class_of e = FileNotFoundError)"

definition is_ValueError :: "pyexn \<Rightarrow> bool" where
  "is_ValueError e = (exn_class_of e = ValueError)"

subsection \<open>The outside world\<close>

text \<open>
  A \<open>requests.Response\<close>: its status code, the text of the \<open>HTTPError\<close> that
  \<open>raise_for_status\<close> builds from it, and the outcome of \<open>response.json()\<close>.
\<close>

record response =
  status_code :: int
  http_error_msg :: string
  json_body :: "pyexn + json"

text \<open>
  The events of a run: the two HTTP requests and the Streamlit calls, each with the
  arguments the script passes. \<open>StNumberInput\<close> has the column (\<open>i % 4\<close>), the
  label and the key; its \<open>value=0.0\<close> and \<open>format="%.2f"\<close> are constants.
\<close>

datatype event =
    HttpGet string
  | HttpPost string json
  | StSetPageConfig string string
  | StTitle string
  | StError string
  | StWarning string
  | StInfo string
  | StSuccess string
  | StCaption string
  | StSelectbox string "json list"
  | StDivider
  | StSubheader string
  | StColumns nat
  | StNumberInput nat string string
  | StButton string
  | StSidebarHeader string
  | StSidebarWrite string
  | StSidebarInfo string

text \<open>
  The inputs of one run of the script: the outcome of \<open>pd.read_csv\<close> on a path (an
  exception, or the rows of the frame), of \<open>requests.get\<close> on a URL, of
  \<open>requests.post\<close> on a URL and a JSON body, the option the user has selected among
  those offered, the current value of the number input with a given key (\<open>0.0\<close>
  until the user changes it), and whether the button has just been pressed.
\<close>

record env =
  read_csv :: "string \<Rightarrow> pyexn + cell list list"
  http_get :: "string \<Rightarrow> pyexn + response"
  http_post :: "string \<Rightarrow> json \<Rightarrow> pyexn + response"
  selectbox :: "json list \<Rightarrow> json"
  number_input :: "string \<Rightarrow> pyfloat"
  button :: bool

text \<open>
  Builtins of Python whose algorithms are not part of the script are parameters:
  \<open>float\<close> on a string (\<open>None\<close> when it raises \<open>ValueError\<close>), and \<open>str\<close> (as an
  f-string applies it) on a JSON value and on a cell that are not strings.
\<close>

record pylib =
  float_of_str :: "string \<Rightarrow> pyfloat option"
  repr_json :: "json \<Rightarrow> string"
  repr_cell :: "cell \<Rightarrow> string"

subsection \<open>Computations with exceptions and a trace\<close>

type_synonym 'a py = "(pyexn + 'a) \<times> event list"

definition ret :: "'a \<Rightarrow> 'a py" where
  "ret x = (Inr x, [])"

definition emit :: "event \<Rightarrow> unit py" where
  "emit ev = (Inr (), [ev])"

definition lift :: "pyexn + 'a \<Rightarrow> 'a py" where
  "lift r = (r, [])"

text \<open>Sequencing: the second computation runs only if the first did not raise.\<close>

definition bind :: "'a py \<Rightarrow> ('a \<Rightarrow> 'b py) \<Rightarrow> 'b py" where
  "bind m f =
     (case m of
        (Inl e, t) \<Rightarrow> (Inl e, t)
      | (Inr x, t) \<Rightarrow> (case f x of (r, t') \<Rightarrow> (r, t @ t')))"

definition seq :: "unit py \<Rightarrow> 'b py \<Rightarrow> 'b py" where
  "seq m k = bind m (\<lambda>_. k)"

text \<open>
  \<open>try: m except ...\<close>: the handler is given the exception; \<open>None\<close> means that no
  \<open>except\<close> clause matches, and the exception goes on.
\<close>

definition try_except :: "'a py \<Rightarrow> (pyexn \<Rightarrow> 'a py option) \<Rightarrow> 'a py" where
  "try_except m h =
     (case m of
        (Inr x, t) \<Rightarrow> (Inr x, t)
      | (Inl e, t) \<Rightarrow>
          (case h e of
             None \<Rightarrow> (Inl e, t)
           | Some k \<Rightarrow> (case k of (r, t') \<Rightarrow> (r, t @ t'))))"

subsection \<open>Numbers as text\<close>

definition digit_char :: "int \<Rightarrow> char" where
  "digit_char d = ''0123456789'' ! nat d"

function str_digits :: "int \<Rightarrow> string" where
  "str_digits n =
     (if n < 10 then [digit_char n]
      else str_digits (n div 10) @ [digit_char (n mod 10)])"
  by pat_completeness auto
termination
  by (relation "measure nat") auto

declare str_digits.simps [simp del]

text \<open>Rounding to the nearest integer, a tie to the even one.\<close>

definition round_half_even :: "rat \<Rightarrow> int" where
  "round_half_even x =
     (let f = floor x; d = x - of_int f
      in if d < 1 / 2 then f
         else if 1 / 2 < d then f + 1
         else if even f then f else f + 1)"

definition zfill4 :: "string \<Rightarrow> string" where
  "zfill4 s = replicate (4 - length s) CHR ''0'' @ s"

text \<open>
  The format specification \<open>.4f\<close> on a non-negative value: the value is rounded
  (correctly, ties to even) to a multiple of \<open>1/10000\<close>, and printed with its integer
  part, a point and four digits.
\<close>

definition fixed4 :: "rat \<Rightarrow> string" where
  "fixed4 a =
     (let n = round_half_even (a * 10000)
      in str_digits (n div 10000) @ ''.'' @ zfill4 (str_digits (n mod 10000)))"

fun format_4f :: "pyfloat \<Rightarrow> string" where
  "format_4f (Finite x) = (if x < 0 then ''-'' @ fixed4 (- x) else fixed4 x)"
| "format_4f NegZero = ''-0.0000''"
| "format_4f PosInf = ''inf''"
| "format_4f NegInf = ''-inf''"
| "format_4f NaN = ''nan''"

text \<open>
  \<open>float(n)\<close> for an integer: the nearest double, a tie to the even mantissa of 53
  bits; \<open>None\<close> is the \<open>OverflowError\<close> of an integer that rounds to \<open>2 ^ 1024\<close>
  or more.
\<close>

function bit_length :: "int \<Rightarrow> int" where
  "bit_length n = (if n \<le> 0 then 0 else 1 + bit_length (n div 2))"
  by pat_completeness auto
termination
  by (relation "measure nat") auto

declare bit_length.simps [simp del]

definition round_div_half_even :: "int \<Rightarrow> int \<Rightarrow> int" where
  "round_div_half_even n d =
     (let q = n div d; r = n mod d
      in if 2 * r < d then q
         else if d < 2 * r then q + 1
         else if even q then q else q + 1)"

definition int_to_float :: "int \<Rightarrow> pyfloat option" where
  "int_to_float i =
     (let a = \<bar>i\<bar>;
          sh = nat (bit_length a - 53);
          m = round_div_half_even a (2 ^ sh) * 2 ^ sh
      in if 2 ^ 1024 \<le> m then None
         else Some (Finite (of_int (if i < 0 then - m else m))))"

text \<open>
  The name of the type of a JSON value, as the interpreter's messages print it. The
  texts of the exceptions that the interpreter raises are those of CPython 3.11.
\<close>

fun type_name :: "json \<Rightarrow> string" where
  "type_name JNull = ''NoneType''"
| "type_name (JBool b) = ''bool''"
| "type_name (JInt i) = ''int''"
| "type_name (JFloat f) = ''float''"
| "type_name (JStr s) = ''str''"
| "type_name (JArr xs) = ''list''"
| "type_name (JObj kvs) = ''dict''"

definition quoted :: "string \<Rightarrow> string" where
  "quoted s = [CHR 0x27] @ s @ [CHR 0x27]"

text \<open>
  \<open>f"{v:.4f}"\<close>: a float is formatted; an \<open>int\<close> or a \<open>bool\<close> is converted to a
  float first; a string does not know the format code, any other value no format
  specification at all.
\<close>

fun py_format_4f :: "json \<Rightarrow> pyexn + string" where
  "py_format_4f (JFloat f) = Inr (format_4f f)"
| "py_format_4f (JInt i) =
     (case int_to_float i of
        None \<Rightarrow> Inl (PyExn OverflowError ''int too large to convert to float'')
      | Some f \<Rightarrow> Inr (format_4f f))"
| "py_format_4f (JBool b) = Inr (format_4f (Finite (if b then 1 else 0)))"
| "py_format_4f (JStr s) =
     Inl (PyExn ValueError
            (''Unknown format code '' @ quoted ''f'' @ '' for object of type '' @ quoted ''str''))"
| "py_format_4f v =
     Inl (PyExn TypeError
            (''unsupported format string passed to '' @ type_name v @ ''.__format__''))"

text \<open>\<open>f"{v}"\<close>: a string as it is, any other value as \<open>str\<close> prints it.\<close>

fun py_str :: "pylib \<Rightarrow> json \<Rightarrow> string" where
  "py_str lib (JStr s) = s"
| "py_str lib v = repr_json lib v"

fun str_cell :: "pylib \<Rightarrow> cell \<Rightarrow> string" where
  "str_cell lib (CStr s) = s"
| "str_cell lib c = repr_cell lib c"

text \<open>\<open>v[k]\<close> with a string \<open>k\<close>: only a dict can be subscripted with a string.\<close>

fun py_getitem :: "json \<Rightarrow> string \<Rightarrow> pyexn + json" where
  "py_getitem (JObj kvs) k =
     (case map_of kvs k of
        None \<Rightarrow> Inl (PyExn KeyError (quoted k))
      | Some v \<Rightarrow> Inr v)"
| "py_getitem (JArr xs) k =
     Inl (PyExn TypeError ''list indices must be integers or slices, not str'')"
| "py_getitem (JStr s) k =
     Inl (PyExn TypeError (''string indices must be integers, not '' @ quoted ''str''))"
| "py_getitem v k =
     Inl (PyExn TypeError (quoted (type_name v) @ '' object is not subscriptable''))"

text \<open>
  \<open>for m in v\<close>: the elements of a list, the keys of a dict, the characters of a
  string (one element for each byte here, for each code point in Python; all of them
  are strings); nothing else can be iterated.
\<close>

fun py_iter :: "json \<Rightarrow> pyexn + json list" where
  "py_iter (JArr xs) = Inr xs"
| "py_iter (JObj kvs) = Inr (map (\<lambda>kv. JStr (fst kv)) kvs)"
| "py_iter (JStr s) = Inr (map (\<lambda>c. JStr [c]) s)"
| "py_iter v = Inl (PyExn TypeError (quoted (type_name v) @ '' object is not iterable''))"

text \<open>\<open>xs[i]\<close> on a list, with \<open>i\<close> not negative.\<close>

definition py_index :: "'a list \<Rightarrow> nat \<Rightarrow> pyexn + 'a" where
  "py_index xs i =
     (if i < length xs then Inr (xs ! i)
      else Inl (PyExn IndexError ''list index out of range''))"

text \<open>
  A list comprehension \<open>[f(x) for x in xs]\<close>, without events and with them: the first
  exception ends it.
\<close>

fun map_exn :: "('a \<Rightarrow> pyexn + 'b) \<Rightarrow> 'a list \<Rightarrow> pyexn + 'b list" where
  "map_exn f [] = Inr []"
| "map_exn f (x # xs) =
     (case f x of
        Inl e \<Rightarrow> Inl e
      | Inr y \<Rightarrow> (case map_exn f xs of Inl e \<Rightarrow> Inl e | Inr ys \<Rightarrow> Inr (y # ys)))"

fun map_py :: "('a \<Rightarrow> 'b py) \<Rightarrow> 'a list \<Rightarrow> 'b list py" where
  "map_py f [] = ret []"
| "map_py f (x # xs) = bind (f x) (\<lambda>y. bind (map_py f xs) (\<lambda>ys. ret (y # ys)))"

subsection \<open>The label loader\<close>

text \<open>
  \<open>float(wl)\<close> on a cell: a string is parsed, or raises \<open>ValueError\<close>; the numeric
  cells are converted.
\<close>

fun py_float :: "pylib \<Rightarrow> cell \<Rightarrow> pyexn + pyfloat" where
  "py_float lib (CStr s) =
     (case float_of_str lib s of
        None \<Rightarrow> Inl (PyExn ValueError (''could not convert string to float: '' @ quoted s))
      | Some f \<Rightarrow> Inr f)"
| "py_float lib (CFloat f) = Inr f"
| "py_float lib (CInt w) =
     (case int_to_float (sint w) of
        None \<Rightarrow> Inl (PyExn OverflowError ''int too large to convert to float'')
      | Some f \<Rightarrow> Inr f)"
| "py_float lib (CUInt w) =
     (case int_to_float (uint w) of
        None \<Rightarrow> Inl (PyExn OverflowError ''int too large to convert to float'')
      | Some f \<Rightarrow> Inr f)"
| "py_float lib (CBool b) = Inr (Finite (if b then 1 else 0))"

text \<open>
  \<open>df.iloc[0, 1:].values\<close>: the first row without its first column; a frame with no
  row has no row 0.
\<close>

definition iloc_first_row :: "cell list list \<Rightarrow> pyexn + cell list" where
  "iloc_first_row df =
     (case df of
        [] \<Rightarrow> Inl (PyExn IndexError ''single positional indexer is out-of-bounds'')
      | row # rest \<Rightarrow> Inr (drop 1 row))"

text \<open>\<open>[f"... {i+1}" for i in range(11)]\<close>, lines 40 and 43.\<close>

definition placeholder_labels :: "cell list" where
  "placeholder_labels = map (\<lambda>i. CStr (msg_label @ str_digits (int i + 1))) [0..<11]"

text \<open>
  The inner \<open>try\<close>, lines 28 to 31: the floats of all the cells, or the cells
  themselves when a \<open>float(wl)\<close> has raised \<open>ValueError\<close>.
\<close>

definition wavelengths_of :: "pylib \<Rightarrow> cell list \<Rightarrow> cell list py" where
  "wavelengths_of lib wavelengths_str =
     try_except
       (bind (lift (map_exn (py_float lib) wavelengths_str)) (\<lambda>fs.
        ret (map CFloat fs)))
       (\<lambda>e. if is_ValueError e then Some (ret wavelengths_str) else None)"

text \<open>
  \<open>load_wavelengths\<close>, lines 24 to 43. The result is \<open>None\<close> or a list of labels.
\<close>

definition load_wavelengths :: "pylib \<Rightarrow> env \<Rightarrow> string \<Rightarrow> cell list option py" where
  "load_wavelengths lib env filename =
     try_except
       (bind (lift (read_csv env filename)) (\<lambda>df.
        bind (lift (iloc_first_row df)) (\<lambda>wavelengths_str.
        bind (wavelengths_of lib wavelengths_str) (\<lambda>wavelengths.
        if length wavelengths = 11 then ret (Some wavelengths)
        else seq (emit (StError msg_not_eleven)) (ret None)))))
       (\<lambda>e. if is_FileNotFoundError e then
               Some (seq (emit (StWarning (msg_not_found_pre @ filename @ msg_not_found_post)))
                         (ret (Some placeholder_labels)))
            else if is_Exception e then
               Some (seq (emit (StWarning (msg_load_pre @ exn_str e @ msg_load_post)))
                         (ret (Some placeholder_labels)))
            else None)"

subsection \<open>The model lister\<close>

text \<open>
  \<open>response.raise_for_status()\<close> of requests raises \<open>HTTPError\<close>, a
  \<open>RequestException\<close>, for a status from 400 to 599 and for no other.
\<close>

definition raise_for_status :: "response \<Rightarrow> pyexn + unit" where
  "raise_for_status r =
     (if 400 \<le> status_code r \<and> status_code r < 600
      then Inl (PyExn RequestException (http_error_msg r))
      else Inr ())"

text \<open>\<open>[m["name"] for m in models]\<close>, line 51.\<close>

definition model_names :: "json \<Rightarrow> pyexn + json list" where
  "model_names models =
     (case py_iter models of
        Inl e \<Rightarrow> Inl e
      | Inr ms \<Rightarrow> map_exn (\<lambda>m. py_getitem m ''name'') ms)"

text \<open>\<open>get_available_models\<close>, lines 46 to 55.\<close>

definition get_available_models :: "env \<Rightarrow> json list py" where
  "get_available_models env =
     try_except
       (seq (emit (HttpGet (API_BASE_URL @ ''/models'')))
       (bind (lift (http_get env (API_BASE_URL @ ''/models''))) (\<lambda>response.
        bind (lift (raise_for_status response)) (\<lambda>u.
        bind (lift (json_body response)) (\<lambda>models.
        bind (lift (model_names models)) (\<lambda>names.
        ret (JStr ''latest'' # names)))))))
       (\<lambda>e. if is_RequestException e then
               Some (seq (emit (StError (msg_models_failed @ exn_str e)))
                         (ret [JStr ''latest'']))
            else None)"

subsection \<open>The submit handler\<close>

text \<open>
  \<open>response.json().get('detail', ...)\<close>, line 107. The script's top level never
  binds \<open>response\<close> before line 95 (the \<open>response\<close> of \<open>get_available_models\<close> is
  local to that function), so the name is unbound when \<open>requests.post\<close> has raised;
  only a dict has a method \<open>get\<close>.
\<close>

definition error_detail :: "response option \<Rightarrow> pyexn + json" where
  "error_detail response =
     (case response of
        None \<Rightarrow> Inl (PyExn NameError (''name '' @ quoted ''response'' @ '' is not defined''))
      | Some r \<Rightarrow>
          (case json_body r of
             Inl e \<Rightarrow> Inl e
           | Inr (JObj kvs) \<Rightarrow>
               Inr (case map_of kvs ''detail'' of None \<Rightarrow> JStr msg_no_detail | Some d \<Rightarrow> d)
           | Inr v \<Rightarrow>
               Inl (PyExn AttributeError
                      (quoted (type_name v) @ '' object has no attribute '' @ quoted ''get''))))"

text \<open>
  The body of \<open>if st.button(...)\<close>, lines 87 to 112, for the selected model and the
  values of the eleven fields. \<open>response\<close> is bound if and only if \<open>requests.post\<close>
  has returned.
\<close>

definition predict_handler :: "pylib \<Rightarrow> env \<Rightarrow> json \<Rightarrow> pyfloat list \<Rightarrow> unit py" where
  "predict_handler lib env selected_model input_intensities =
     (let predict_payload =
            JObj [(''model_name'', selected_model),
                  (''intensities'', JArr (map JFloat input_intensities))];
          posted = http_post env (API_BASE_URL @ ''/predict'') predict_payload;
          response = (case posted of Inl e \<Rightarrow> None | Inr r \<Rightarrow> Some r)
      in try_except
           (seq (emit (StInfo msg_requesting))
           (seq (emit (HttpPost (API_BASE_URL @ ''/predict'') predict_payload))
           (bind (lift posted) (\<lambda>r.
            bind (lift (raise_for_status r)) (\<lambda>u.
            bind (lift (json_body r)) (\<lambda>result.
            bind (lift (py_getitem result ''predicted_te'')) (\<lambda>te.
            bind (lift (py_format_4f te)) (\<lambda>shown.
            seq (emit (StSuccess (msg_predicted_pre @ shown @ msg_predicted_post)))
            (bind (lift (py_getitem result ''model_used'')) (\<lambda>used.
             emit (StCaption (msg_model_used @ py_str lib used))))))))))))
           (\<lambda>e. if is_RequestException e then
                   Some (seq (emit (StError (msg_call_failed @ exn_str e)))
                        (try_except
                           (bind (lift (error_detail response)) (\<lambda>d.
                            emit (StError (msg_server_reply @ py_str lib d))))
                           (\<lambda>e'. Some (ret ()))))
                else if is_Exception e then
                   Some (emit (StError (msg_unexpected @ exn_str e)))
                else None))"

subsection \<open>The page\<close>

text \<open>
  One number input, lines 79 to 82: the label is \<open>wavelength_labels[i]\<close>, the column
  \<open>i % 4\<close>, the key \<open>intensity_i\<close>; the value of the field is returned.
\<close>

definition intensity_field :: "pylib \<Rightarrow> env \<Rightarrow> cell list \<Rightarrow> nat \<Rightarrow> pyfloat py" where
  "intensity_field lib env wavelength_labels i =
     bind (lift (py_index wavelength_labels i)) (\<lambda>label.
     seq (emit (StNumberInput (i mod 4) (str_cell lib label)
                  (''intensity_'' @ str_digits (int i))))
         (ret (number_input env (''intensity_'' @ str_digits (int i)))))"

text \<open>
  The form, lines 73 to 112: the eleven fields in the order of the labels, the button,
  and the handler when the button has been pressed.
\<close>

definition form :: "pylib \<Rightarrow> env \<Rightarrow> json \<Rightarrow> cell list \<Rightarrow> unit py" where
  "form lib env selected_model wavelength_labels =
     seq (emit (StSubheader msg_subheader))
    (seq (emit (StColumns 4))
    (bind (map_py (intensity_field lib env wavelength_labels) [0..<11]) (\<lambda>input_intensities.
     seq (emit (StButton msg_button))
         (if button env then predict_handler lib env selected_model input_intensities
          else ret ()))))"

text \<open>
  The script's top level, lines 58 to 119, for the path of the data file (which the
  script derives from its own location). \<open>if wavelength_labels:\<close> holds for a list that
  is not empty; \<open>None\<close> and the empty list go to the \<open>else\<close> branch.
\<close>

definition page :: "pylib \<Rightarrow> env \<Rightarrow> string \<Rightarrow> unit py" where
  "page lib env data_file_path =
     seq (emit (StSetPageConfig msg_page_title ''wide''))
    (seq (emit (StTitle msg_title))
    (bind (get_available_models env) (\<lambda>available_models.
     seq (emit (StSelectbox msg_select_model available_models))
    (seq (emit StDivider)
    (bind (load_wavelengths lib env data_file_path) (\<lambda>wavelength_labels.
     seq (case wavelength_labels of
            None \<Rightarrow> emit (StError msg_cannot_load)
          | Some labels \<Rightarrow>
              if labels = [] then emit (StError msg_cannot_load)
              else form lib env (selectbox env available_models) labels)
    (seq (emit (StSidebarHeader msg_sidebar_header))
    (seq (emit (StSidebarWrite (msg_sidebar_url @ API_BASE_URL)))
         (emit (StSidebarInfo msg_sidebar_info))))))))))"

subsection \<open>Notions used to state the properties\<close>



text \<open>The POST requests of a trace, in order.\<close>

fun http_posts :: "event list \<Rightarrow> (string \<times> json) list" where
  "http_posts [] = []"
| "http_posts (HttpPost u b # evs) = (u, b) # http_posts evs"
| "http_posts (ev # evs) = http_posts evs"

subsection \<open>Example inputs\<close>

text \<open>
  A \<open>float\<close> that knows two strings, and an outside world in which the data file is
  missing, the server does not answer, the user keeps the first model and the fields
  at \<open>0.0\<close>, and presses the button. The examples below change it in one place each.
\<close>

definition example_lib :: pylib where
  "example_lib =
     \<lparr>float_of_str = (\<lambda>s. if s = ''656.5'' then Some (Finite (1313 / 2))
                          else if s = ''486'' then Some (Finite 486) else None),
      repr_json = (\<lambda>v. ''<json>''),
      repr_cell = (\<lambda>c. ''<cell>'')\<rparr>"

definition example_env :: env where
  "example_env =
     \<lparr>read_csv = (\<lambda>p. Inl (PyExn FileNotFoundError ''No such file or directory'')),
      http_get = (\<lambda>u. Inl (PyExn RequestException ''Connection refused'')),
      http_post = (\<lambda>u b. Inl (PyExn RequestException ''Connection refused'')),
      selectbox = (\<lambda>options. case options of [] \<Rightarrow> JNull | x # xs \<Rightarrow> x),
      number_input = (\<lambda>k. Finite 0),
      button = True\<rparr>"



definition named_row :: "cell list" where
  "named_row =
     [CStr ''Te'', CStr ''Ha'', CStr ''486'', CFloat (Finite 434), CFloat (Finite 410),
      CFloat (Finite 397), CFloat (Finite 389), CFloat (Finite 706), CFloat (Finite 750),
      CFloat (Finite 763), CFloat (Finite 811), CFloat (Finite 842)]"

definition short_row :: "cell list" where
  "short_row =
     [CStr ''Te'', CStr ''Ha'', CStr ''486'', CFloat (Finite 434), CFloat (Finite 410),
      CFloat (Finite 397), CFloat (Finite 389), CFloat (Finite 706), CFloat (Finite 750),
      CFloat (Finite 763), CFloat (Finite 811)]"

text \<open>Answers of the server.\<close>

definition models_response :: response where
  "models_response =
     \<lparr>status_code = 200, http_error_msg = [],
      json_body = Inr (JArr [JObj [(''name'', JStr ''a.model'')],
                             JObj [(''name'', JStr ''b.model'')]])\<rparr>"

definition nameless_response :: response where
  "nameless_response =
     \<lparr>status_code = 200, http_error_msg = [],
      json_body = Inr (JArr [JObj [(''id'', JInt 1)]])\<rparr>"

definition server_error_response :: response where
  "server_error_response =
     \<lparr>status_code = 500, http_error_msg = ''500 Server Error'',
      json_body = Inl (PyExn RequestException ''Expecting value'')\<rparr>"

definition not_json_response :: response where
  "not_json_response =
     \<lparr>status_code = 200, http_error_msg = [],
      json_body = Inl (PyExn RequestException ''Expecting value'')\<rparr>"


definition bad_input_response :: response where
  "bad_input_response =
     \<lparr>status_code = 400, http_error_msg = ''400 Client Error'',
      json_body = Inr (JObj [(''detail'', JStr ''bad input'')])\<rparr>"

section \<open>Properties of the parts\<close>

lemma bind_Inl [simp]: "bind (Inl e, t) f = (Inl e, t)"
  by (simp add: bind_def)

lemma bind_Inr [simp]: "bind (Inr x, t) f = (fst (f x), t @ snd (f x))"
  by (simp add: bind_def split: prod.splits)

lemma bind_lift_Inl [simp]: "bind (lift (Inl e)) f = (Inl e, [])"
  by (simp add: lift_def)

lemma bind_lift_Inr [simp]: "bind (lift (Inr x)) f = f x"
  by (simp add: lift_def)

lemma seq_emit [simp]: "seq (emit ev) k = (fst k, ev # snd k)"
  by (simp add: seq_def emit_def)

lemma try_except_Inr [simp]: "try_except (Inr x, t) h = (Inr x, t)"
  by (simp add: try_except_def)

lemma try_except_Inl [simp]:
  "try_except (Inl e, t) h = (case h e of None \<Rightarrow> (Inl e, t) | Some k \<Rightarrow> (fst k, t @ snd k))"
  by (simp add: try_except_def split: option.splits prod.splits)

lemma fst_ret [simp]: "fst (ret x) = Inr x"
  by (simp add: ret_def)

lemma snd_ret [simp]: "snd (ret x) = []"
  by (simp add: ret_def)

lemma fst_emit [simp]: "fst (emit ev) = Inr ()"
  by (simp add: emit_def)

lemma snd_emit [simp]: "snd (emit ev) = [ev]"
  by (simp add: emit_def)

lemmas py_simps = ret_def lift_def emit_def seq_def

lemma placeholder_labels_eq:
  "placeholder_labels =
     [CStr (msg_label @ ''1''), CStr (msg_label @ ''2''), CStr (msg_label @ ''3''),
      CStr (msg_label @ ''4''), CStr (msg_label @ ''5''), CStr (msg_label @ ''6''),
      CStr (msg_label @ ''7''), CStr (msg_label @ ''8''), CStr (msg_label @ ''9''),
      CStr (msg_label @ ''10''), CStr (msg_label @ ''11'')]"
  by (simp add: placeholder_labels_def upt_rec str_digits.simps digit_char_def)

lemma bit_length_le: "0 \<le> n \<Longrightarrow> n < 2 ^ k \<Longrightarrow> bit_length n \<le> int k"
proof (induction k arbitrary: n)
  case 0
  then have "n = 0" by simp
  then show ?case by (simp add: bit_length.simps)
next
  case (Suc k)
  show ?case
  proof (cases "n \<le> 0")
    case True
    then show ?thesis by (simp add: bit_length.simps)
  next
    case False
    have "n div 2 < 2 ^ k" using Suc.prems by auto
    moreover have "0 \<le> n div 2" using Suc.prems by simp
    ultimately have "bit_length (n div 2) \<le> int k" by (rule Suc.IH[rotated])
    with False show ?thesis by (subst bit_length.simps) simp
  qed
qed

lemma round_div_half_even_near:
  assumes "0 < d"
  shows "2 * \<bar>round_div_half_even n d * d - n\<bar> \<le> d"
proof -
  define q where "q = n div d"
  define r where "r = n mod d"
  have n: "n = q * d + r" by (simp add: q_def r_def)
  have r: "0 \<le> r" "r < d" using assms by (simp_all add: r_def)
  have rd: "round_div_half_even n d =
              (if 2 * r < d then q else if d < 2 * r then q + 1
               else if even q then q else q + 1)"
    by (simp only: round_div_half_even_def Let_def q_def[symmetric] r_def[symmetric])
  have "2 * \<bar>round_div_half_even n d * d - (q * d + r)\<bar> \<le> d"
    unfolding rd using r by (auto simp: algebra_simps abs_if)
  then show ?thesis using n by simp
qed

lemma int_to_float_near:
  assumes "\<bar>i\<bar> < 2 ^ 64"
  shows "\<exists>m. int_to_float i = Some (Finite (of_int m)) \<and> \<bar>m - i\<bar> \<le> 1024 \<and>
             (\<bar>i\<bar> < 2 ^ 53 \<longrightarrow> m = i)"
proof -
  define a where "a = \<bar>i\<bar>"
  have a0: "0 \<le> a" by (simp add: a_def)
  have a64: "a < 2 ^ 64" using assms by (simp add: a_def)
  have "bit_length a \<le> 64" using bit_length_le[OF a0 a64] by simp
  then have sh: "nat (bit_length a - 53) \<le> 11" by simp
  define d :: int where "d = 2 ^ nat (bit_length a - 53)"
  define M where "M = round_div_half_even a d * d"
  have d0: "0 < d" by (simp add: d_def)
  have d11: "d \<le> 2 ^ 11" unfolding d_def using sh by (intro power_increasing) simp_all
  have near: "2 * \<bar>M - a\<bar> \<le> d" unfolding M_def by (rule round_div_half_even_near[OF d0])
  then have near': "\<bar>M - a\<bar> \<le> 1024" using d11 by simp
  then have "M < 2 ^ 64 + 2 ^ 11" using a64 by simp
  also have "\<dots> < (2::int) ^ 1024" by simp
  finally have big: "\<not> 2 ^ 1024 \<le> M" by simp
  have val: "int_to_float i = Some (Finite (of_int (if i < 0 then - M else M)))"
    using big by (simp add: int_to_float_def Let_def a_def[symmetric] d_def[symmetric]
        M_def[symmetric])
  have dist: "\<bar>(if i < 0 then - M else M) - i\<bar> \<le> 1024"
    using near' by (auto simp: a_def abs_if split: if_splits)
  have exact: "(if i < 0 then - M else M) = i" if "\<bar>i\<bar> < 2 ^ 53"
  proof -
    have "a < 2 ^ 53" using that by (simp add: a_def)
    then have "bit_length a \<le> 53" using bit_length_le[OF a0, of 53] by simp
    then have "d = 1" by (simp add: d_def)
    then have "M = a" by (simp add: M_def round_div_half_even_def)
    then show ?thesis by (auto simp: a_def)
  qed
  from val dist exact show ?thesis by blast
qed

lemma sint_64_bound: "\<bar>sint (w :: 64 word)\<bar> < 2 ^ 64"
proof -
  have "- (2 ^ 63) \<le> sint w" "sint w < 2 ^ 63"
    using sint_ge[of w] sint_lt[of w] by simp_all
  then show ?thesis by (simp add: abs_if)
qed

lemma uint_64_bound: "\<bar>uint (w :: 64 word)\<bar> < 2 ^ 64"
  using uint_bounded[of w] by simp



lemma int_to_float_sint: "int_to_float (sint (w :: 64 word)) \<noteq> None"
  using int_to_float_near[OF sint_64_bound, of w] by auto

lemma int_to_float_uint: "int_to_float (uint (w :: 64 word)) \<noteq> None"
  using int_to_float_near[OF uint_64_bound, of w] by auto

lemma py_float_only_ValueError: "py_float lib c = Inl e \<Longrightarrow> is_ValueError e"
  by (cases c)
     (auto simp: is_ValueError_def int_to_float_sint int_to_float_uint split: option.splits)


lemma map_exn_Inl:
  "map_exn f xs = Inl e \<Longrightarrow> \<exists>x \<in> set xs. f x = Inl e"
  by (induction xs) (auto split: sum.splits)

lemma map_exn_Inr_iff:
  "(\<exists>ys. map_exn f xs = Inr ys) \<longleftrightarrow> (\<forall>x \<in> set xs. \<not> isl (f x))"
  by (induction xs) (auto split: sum.splits simp: isl_def)

lemma map_exn_Inr_eq:
  "map_exn f xs = Inr ys \<Longrightarrow> ys = map (\<lambda>x. projr (f x)) xs"
  by (induction xs arbitrary: ys) (auto split: sum.splits)

lemma convert_cells:
  "wavelengths_of lib ws =
   (Inr (if \<forall>c \<in> set ws. \<not> isl (py_float lib c)
         then map (\<lambda>c. CFloat (projr (py_float lib c))) ws else ws), [])"
proof (cases "map_exn (py_float lib) ws")
  case (Inl e)
  then obtain c where "c \<in> set ws" "py_float lib c = Inl e"
    using map_exn_Inl by fastforce
  then have "is_ValueError e" "\<not> (\<forall>c \<in> set ws. \<not> isl (py_float lib c))"
    using py_float_only_ValueError by (auto simp: isl_def)
  with Inl show ?thesis by (auto simp: wavelengths_of_def py_simps)
next
  case (Inr fs)
  then have "\<forall>c \<in> set ws. \<not> isl (py_float lib c)"
    using map_exn_Inr_iff[of "py_float lib" ws] by blast
  moreover have "fs = map (\<lambda>c. projr (py_float lib c)) ws"
    using Inr by (rule map_exn_Inr_eq)
  ultimately show ?thesis using Inr by (simp add: wavelengths_of_def py_simps)
qed

lemma map_exn_getitem_names:
  "\<forall>kvs \<in> set kvss. map_of kvs k \<noteq> None \<Longrightarrow>
   map_exn (\<lambda>m. py_getitem m k) (map JObj kvss) = Inr (map (\<lambda>kvs. the (map_of kvs k)) kvss)"
  by (induction kvss) auto

lemma lister_cases:
  "get_available_models env =
     (case http_get env (API_BASE_URL @ ''/models'') of
        Inl e \<Rightarrow> if is_RequestException e
                 then (Inr [JStr ''latest''],
                       [HttpGet (API_BASE_URL @ ''/models''), StError (msg_models_failed @ exn_str e)])
                 else (Inl e, [HttpGet (API_BASE_URL @ ''/models'')])
      | Inr r \<Rightarrow>
          if 400 \<le> status_code r \<and> status_code r < 600
          then (Inr [JStr ''latest''],
                [HttpGet (API_BASE_URL @ ''/models''),
                 StError (msg_models_failed @ http_error_msg r)])
          else (case json_body r of
                  Inl e \<Rightarrow> if is_RequestException e
                           then (Inr [JStr ''latest''],
                                 [HttpGet (API_BASE_URL @ ''/models''),
                                  StError (msg_models_failed @ exn_str e)])
                           else (Inl e, [HttpGet (API_BASE_URL @ ''/models'')])
                | Inr models \<Rightarrow>
                    (case model_names models of
                       Inl e \<Rightarrow> if is_RequestException e
                                then (Inr [JStr ''latest''],
                                      [HttpGet (API_BASE_URL @ ''/models''),
                                       StError (msg_models_failed @ exn_str e)])
                                else (Inl e, [HttpGet (API_BASE_URL @ ''/models'')])
                     | Inr names \<Rightarrow>
                         (Inr (JStr ''latest'' # names),
                          [HttpGet (API_BASE_URL @ ''/models'')]))))"
  by (simp add: get_available_models_def raise_for_status_def py_simps is_RequestException_def
      split: sum.splits)












lemma http_posts_append [simp]: "http_posts (xs @ ys) = http_posts xs @ http_posts ys"
  by (induction xs rule: http_posts.induct) simp_all

lemma length_placeholder_labels: "length placeholder_labels = 11"
  by (simp add: placeholder_labels_def)

lemma load_cases:
  "load_wavelengths lib env filename =
     (case read_csv env filename of
        Inl e \<Rightarrow>
          if is_FileNotFoundError e then
            (Inr (Some placeholder_labels),
             [StWarning (msg_not_found_pre @ filename @ msg_not_found_post)])
          else if is_Exception e then
            (Inr (Some placeholder_labels),
             [StWarning (msg_load_pre @ exn_str e @ msg_load_post)])
          else (Inl e, [])
      | Inr [] \<Rightarrow>
          (Inr (Some placeholder_labels),
           [StWarning (msg_load_pre @ ''single positional indexer is out-of-bounds''
                       @ msg_load_post)])
      | Inr (row # rest) \<Rightarrow>
          if length (drop 1 row) = 11 then
            (Inr (Some (if \<forall>c \<in> set (drop 1 row). \<not> isl (py_float lib c)
                        then map (\<lambda>c. CFloat (projr (py_float lib c))) (drop 1 row)
                        else drop 1 row)), [])
          else (Inr None, [StError msg_not_eleven]))"
  by (simp add: load_wavelengths_def iloc_first_row_def convert_cells py_simps
      is_FileNotFoundError_def is_Exception_def split: sum.splits list.splits)

lemma load_length:
  "fst (load_wavelengths lib env filename) = Inr (Some labels) \<Longrightarrow> length labels = 11"
  by (auto simp: load_cases length_placeholder_labels split: sum.splits list.splits if_splits)








lemma no_posts_lift [simp]: "http_posts (snd (lift r)) = []"
  by (simp add: lift_def)










section \<open>The claims\<close>

subsection \<open>The label loader\<close>




text \<open>
  Claim C4, as the code has it. When \<open>read_csv\<close> raises, for a missing file
  (\<open>FileNotFoundError\<close>) as for any other exception, \<open>load_wavelengths\<close> returns the
  eleven placeholder labels and shows one warning, no error. The labels are the
  Korean word of the source (the bytes of \<open>msg_label\<close>), a space and the numbers 1
  to 11; they are not the strings \<open>Wavelength 1\<close> to \<open>Wavelength 11\<close>.
\<close>

theorem load_wavelengths_placeholders:
  assumes "read_csv env filename = Inl e" and "is_Exception e"
  shows "load_wavelengths lib env filename =
           (Inr (Some [CStr (msg_label @ ''1''), CStr (msg_label @ ''2''),
                       CStr (msg_label @ ''3''), CStr (msg_label @ ''4''),
                       CStr (msg_label @ ''5''), CStr (msg_label @ ''6''),
                       CStr (msg_label @ ''7''), CStr (msg_label @ ''8''),
                       CStr (msg_label @ ''9''), CStr (msg_label @ ''10''),
                       CStr (msg_label @ ''11'')]),
            [StWarning (if is_FileNotFoundError e
                        then msg_not_found_pre @ filename @ msg_not_found_post
                        else msg_load_pre @ exn_str e @ msg_load_post)])"
  using assms by (simp add: load_cases placeholder_labels_eq)

theorem load_wavelengths_placeholders_witness:
  "read_csv example_env ''ML_data_for_learning_N1000.txt''
     = Inl (PyExn FileNotFoundError ''No such file or directory'') \<and>
   is_Exception (PyExn FileNotFoundError ''No such file or directory'') \<and>
   load_wavelengths example_lib example_env ''ML_data_for_learning_N1000.txt'' =
     (Inr (Some [CStr (msg_label @ ''1''), CStr (msg_label @ ''2''),
                 CStr (msg_label @ ''3''), CStr (msg_label @ ''4''),
                 CStr (msg_label @ ''5''), CStr (msg_label @ ''6''),
                 CStr (msg_label @ ''7''), CStr (msg_label @ ''8''),
                 CStr (msg_label @ ''9''), CStr (msg_label @ ''10''),
                 CStr (msg_label @ ''11'')]),
      [StWarning (msg_not_found_pre @ ''ML_data_for_learning_N1000.txt''
                  @ msg_not_found_post)])"
  using load_wavelengths_placeholders [of example_env "''ML_data_for_learning_N1000.txt''"
      "PyExn FileNotFoundError ''No such file or directory''" example_lib]
  by (simp add: example_env_def is_Exception_def is_FileNotFoundError_def)

text \<open>
  For the missing file of the example, the labels returned are not the list
  \<open>Wavelength 1\<close>, ..., \<open>Wavelength 11\<close>.
\<close>

theorem load_wavelengths_placeholders_counterexample:
  "fst (load_wavelengths example_lib example_env ''ML_data_for_learning_N1000.txt'') \<noteq>
     Inr (Some [CStr ''Wavelength 1'', CStr ''Wavelength 2'', CStr ''Wavelength 3'',
                CStr ''Wavelength 4'', CStr ''Wavelength 5'', CStr ''Wavelength 6'',
                CStr ''Wavelength 7'', CStr ''Wavelength 8'', CStr ''Wavelength 9'',
                CStr ''Wavelength 10'', CStr ''Wavelength 11''])"
  by (simp add: load_cases example_env_def is_FileNotFoundError_def placeholder_labels_eq
      msg_label_def)

subsection \<open>The model lister\<close>

text \<open>
  Claim C7. When the GET to \<open>/models\<close> succeeds (a status from 200 to 299) and the
  body is a JSON array of objects that each have a field \<open>name\<close>,
  \<open>get_available_models\<close> returns \<open>latest\<close> followed by the names, in the order of
  the array, and shows nothing.
\<close>

theorem get_available_models_names:
  assumes "http_get env (API_BASE_URL @ ''/models'') = Inr r"
    and "200 \<le> status_code r" and "status_code r < 300"
    and "json_body r = Inr (JArr (map JObj kvss))"
    and "\<forall>kvs \<in> set kvss. map_of kvs ''name'' \<noteq> None"
  shows "get_available_models env =
           (Inr (JStr ''latest'' # map (\<lambda>kvs. the (map_of kvs ''name'')) kvss),
            [HttpGet (API_BASE_URL @ ''/models'')])"
  using assms
  by (simp add: lister_cases model_names_def map_exn_getitem_names)

text \<open>
  The array of the two objects named \<open>a.model\<close> and \<open>b.model\<close> gives
  \<open>latest\<close>, \<open>a.model\<close>, \<open>b.model\<close>.
\<close>

theorem get_available_models_names_witness:
  "get_available_models (example_env\<lparr>http_get := \<lambda>u. Inr models_response\<rparr>) =
     (Inr [JStr ''latest'', JStr ''a.model'', JStr ''b.model''],
      [HttpGet ''http://127.0.0.1:8000/models''])"
  using get_available_models_names [of "example_env\<lparr>http_get := \<lambda>u. Inr models_response\<rparr>"
      models_response "[[(''name'', JStr ''a.model'')], [(''name'', JStr ''b.model'')]]"]
  by (simp add: example_env_def models_response_def API_BASE_URL_def)

text \<open>
  Claim C3, as the code has it. \<open>get_available_models\<close> catches
  \<open>RequestException\<close> and nothing else. When \<open>requests.get\<close> raises one, when the
  status is from 400 to 599 (\<open>raise_for_status\<close> raises \<open>HTTPError\<close>), or when
  decoding the body raises one, it shows the error and returns exactly the list with
  the one element \<open>latest\<close>. Whenever it returns, the result is a list that starts
  with \<open>latest\<close>; an exception that leaves it is never a \<open>RequestException\<close>.
\<close>

theorem get_available_models_fallback:
  "(\<forall>e. http_get env (API_BASE_URL @ ''/models'') = Inl e \<and> is_RequestException e \<longrightarrow>
      get_available_models env =
        (Inr [JStr ''latest''],
         [HttpGet (API_BASE_URL @ ''/models''), StError (msg_models_failed @ exn_str e)])) \<and>
   (\<forall>r. http_get env (API_BASE_URL @ ''/models'') = Inr r \<and>
         400 \<le> status_code r \<and> status_code r < 600 \<longrightarrow>
      get_available_models env =
        (Inr [JStr ''latest''],
         [HttpGet (API_BASE_URL @ ''/models''),
          StError (msg_models_failed @ http_error_msg r)])) \<and>
   (\<forall>r e. http_get env (API_BASE_URL @ ''/models'') = Inr r \<and>
         \<not> (400 \<le> status_code r \<and> status_code r < 600) \<and>
         json_body r = Inl e \<and> is_RequestException e \<longrightarrow>
      get_available_models env =
        (Inr [JStr ''latest''],
         [HttpGet (API_BASE_URL @ ''/models''), StError (msg_models_failed @ exn_str e)])) \<and>
   (\<forall>names. fst (get_available_models env) = Inr names \<longrightarrow>
      names \<noteq> [] \<and> hd names = JStr ''latest'') \<and>
   (\<forall>e. fst (get_available_models env) = Inl e \<longrightarrow> \<not> is_RequestException e)"
  by (auto simp: lister_cases split: sum.splits if_splits)

theorem get_available_models_fallback_witness:
  "get_available_models example_env =
     (Inr [JStr ''latest''],
      [HttpGet (API_BASE_URL @ ''/models''), StError (msg_models_failed @ ''Connection refused'')]) \<and>
   get_available_models (example_env\<lparr>http_get := \<lambda>u. Inr server_error_response\<rparr>) =
     (Inr [JStr ''latest''],
      [HttpGet (API_BASE_URL @ ''/models''), StError (msg_models_failed @ ''500 Server Error'')]) \<and>
   get_available_models (example_env\<lparr>http_get := \<lambda>u. Inr not_json_response\<rparr>) =
     (Inr [JStr ''latest''],
      [HttpGet (API_BASE_URL @ ''/models''), StError (msg_models_failed @ ''Expecting value'')])"
  using get_available_models_fallback [of example_env]
    get_available_models_fallback [of "example_env\<lparr>http_get := \<lambda>u. Inr server_error_response\<rparr>"]
    get_available_models_fallback [of "example_env\<lparr>http_get := \<lambda>u. Inr not_json_response\<rparr>"]
  by (simp add: example_env_def server_error_response_def not_json_response_def
      is_RequestException_def)

text \<open>
  An exception does leave the function: for a body whose one object has no field
  \<open>name\<close>, the \<open>KeyError\<close> of line 51 is not caught.
\<close>

theorem get_available_models_counterexample:
  "get_available_models (example_env\<lparr>http_get := \<lambda>u. Inr nameless_response\<rparr>) =
     (Inl (PyExn KeyError (quoted ''name'')), [HttpGet (API_BASE_URL @ ''/models'')])"
  by (simp add: lister_cases example_env_def nameless_response_def model_names_def
      is_RequestException_def)

subsection \<open>The submit handler\<close>



text \<open>
  Claim C8. When \<open>requests.post\<close> raises a \<open>RequestException\<close> (a network
  failure), the handler shows the failure message with the text of the exception and
  nothing after it. When the server answers with a status from 400 to 599, it shows
  the failure message with the text of the \<open>HTTPError\<close>, and then, if the body of
  the response is a JSON object, a second message with its \<open>detail\<close> (or the default
  text when the object has none); if the body cannot be decoded or is not an object,
  the second message is left out and the first stands. The handler raises nothing.
\<close>

theorem predict_handler_failure:
  "(\<forall>e. http_post env (API_BASE_URL @ ''/predict'')
             (JObj [(''model_name'', sel), (''intensities'', JArr (map JFloat vals))]) = Inl e \<and>
         is_RequestException e \<longrightarrow>
      predict_handler lib env sel vals =
        (Inr (),
         [StInfo msg_requesting,
          HttpPost (API_BASE_URL @ ''/predict'')
            (JObj [(''model_name'', sel), (''intensities'', JArr (map JFloat vals))]),
          StError (msg_call_failed @ exn_str e)])) \<and>
   (\<forall>r. http_post env (API_BASE_URL @ ''/predict'')
             (JObj [(''model_name'', sel), (''intensities'', JArr (map JFloat vals))]) = Inr r \<and>
         400 \<le> status_code r \<and> status_code r < 600 \<longrightarrow>
      predict_handler lib env sel vals =
        (Inr (),
         [StInfo msg_requesting,
          HttpPost (API_BASE_URL @ ''/predict'')
            (JObj [(''model_name'', sel), (''intensities'', JArr (map JFloat vals))]),
          StError (msg_call_failed @ http_error_msg r)] @
         (case json_body r of
            Inr (JObj kvs) \<Rightarrow>
              [StError (msg_server_reply @
                 py_str lib (case map_of kvs ''detail'' of
                               None \<Rightarrow> JStr msg_no_detail | Some d \<Rightarrow> d))]
          | _ \<Rightarrow> [])))"
  by (auto simp: predict_handler_def Let_def raise_for_status_def py_simps error_detail_def
      is_RequestException_def split: sum.splits json.splits option.splits)

text \<open>
  A refused connection shows the failure alone; a status 400 with the body
  \<open>{"detail": "bad input"}\<close> shows the failure and \<open>bad input\<close>; a status 500 with
  a body that is not JSON shows the failure alone.
\<close>

theorem predict_handler_failure_witness:
  "predict_handler example_lib example_env (JStr ''latest'') (replicate 11 (Finite 0)) =
     (Inr (),
      [StInfo msg_requesting,
       HttpPost (API_BASE_URL @ ''/predict'')
         (JObj [(''model_name'', JStr ''latest''),
                (''intensities'', JArr (map JFloat (replicate 11 (Finite 0))))]),
       StError (msg_call_failed @ ''Connection refused'')]) \<and>
   predict_handler example_lib (example_env\<lparr>http_post := \<lambda>u b. Inr bad_input_response\<rparr>)
     (JStr ''latest'') (replicate 11 (Finite 0)) =
     (Inr (),
      [StInfo msg_requesting,
       HttpPost (API_BASE_URL @ ''/predict'')
         (JObj [(''model_name'', JStr ''latest''),
                (''intensities'', JArr (map JFloat (replicate 11 (Finite 0))))]),
       StError (msg_call_failed @ ''400 Client Error''),
       StError (msg_server_reply @ ''bad input'')]) \<and>
   predict_handler example_lib (example_env\<lparr>http_post := \<lambda>u b. Inr server_error_response\<rparr>)
     (JStr ''latest'') (replicate 11 (Finite 0)) =
     (Inr (),
      [StInfo msg_requesting,
       HttpPost (API_BASE_URL @ ''/predict'')
         (JObj [(''model_name'', JStr ''latest''),
                (''intensities'', JArr (map JFloat (replicate 11 (Finite 0))))]),
       StError (msg_call_failed @ ''500 Server Error'')])"
  using predict_handler_failure [of example_env "JStr ''latest''" "replicate 11 (Finite 0)"
      example_lib]
    predict_handler_failure [of "example_env\<lparr>http_post := \<lambda>u b. Inr bad_input_response\<rparr>"
      "JStr ''latest''" "replicate 11 (Finite 0)" example_lib]
    predict_handler_failure [of "example_env\<lparr>http_post := \<lambda>u b. Inr server_error_response\<rparr>"
      "JStr ''latest''" "replicate 11 (Finite 0)" example_lib]
  by (simp add: example_env_def bad_input_response_def server_error_response_def
      is_RequestException_def)

text \<open>
  Claim C10. When \<open>requests.post\<close> itself raises an exception, so that \<open>response\<close>
  is not bound, the handler ends without an exception and shows one error message only:
  the failure message for a \<open>RequestException\<close> (the message for an unexpected
  error for any other \<open>Exception\<close>). Reading the detail then raises \<open>NameError\<close>,
  which the bare \<open>except\<close> of line 109 swallows.
\<close>

theorem predict_handler_post_raises:
  assumes "http_post env (API_BASE_URL @ ''/predict'')
             (JObj [(''model_name'', sel), (''intensities'', JArr (map JFloat vals))]) = Inl e"
    and "is_Exception e"
  shows "predict_handler lib env sel vals =
           (Inr (),
            [StInfo msg_requesting,
             HttpPost (API_BASE_URL @ ''/predict'')
               (JObj [(''model_name'', sel), (''intensities'', JArr (map JFloat vals))]),
             StError ((if is_RequestException e then msg_call_failed else msg_unexpected)
                      @ exn_str e)]) \<and>
         error_detail None = Inl (PyExn NameError (''name '' @ quoted ''response'' @ '' is not defined''))"
  using assms
  by (simp add: predict_handler_def Let_def py_simps error_detail_def)

theorem predict_handler_post_raises_witness:
  "predict_handler example_lib example_env (JStr ''latest'') (replicate 11 (Finite 0)) =
     (Inr (),
      [StInfo msg_requesting,
       HttpPost (API_BASE_URL @ ''/predict'')
         (JObj [(''model_name'', JStr ''latest''),
                (''intensities'', JArr (map JFloat (replicate 11 (Finite 0))))]),
       StError (msg_call_failed @ ''Connection refused'')]) \<and>
   error_detail None =
     Inl (PyExn NameError (''name '' @ quoted ''response'' @ '' is not defined''))"
  using predict_handler_post_raises [of example_env "JStr ''latest''" "replicate 11 (Finite 0)"
      "PyExn RequestException ''Connection refused''" example_lib]
  by (simp add: example_env_def is_RequestException_def is_Exception_def)

subsection \<open>The page\<close>



subsection \<open>A header row of the wrong length\<close>

text \<open>
  Claim C5. When \<open>read_csv\<close> returns a frame whose first row does not have eleven
  cells after its first column, \<open>load_wavelengths\<close> shows the validation error and
  returns \<open>None\<close>; the page then shows the error that the labels cannot be loaded
  and none of the form (no field, no button, no request), whatever models the lister
  returned; and this differs from the outcome for a missing file, which is the
  placeholder labels with a warning.
\<close>

theorem load_wavelengths_wrong_count:
  assumes "read_csv env filename = Inr (row # rest)" and "length (drop 1 row) \<noteq> 11"
  shows "load_wavelengths lib env filename = (Inr None, [StError msg_not_eleven]) \<and>
         (\<forall>available_models shown. get_available_models env = (Inr available_models, shown) \<longrightarrow>
            page lib env filename =
              (Inr (),
               [StSetPageConfig msg_page_title ''wide'', StTitle msg_title] @ shown @
               [StSelectbox msg_select_model available_models, StDivider,
                StError msg_not_eleven, StError msg_cannot_load,
                StSidebarHeader msg_sidebar_header,
                StSidebarWrite (msg_sidebar_url @ API_BASE_URL),
                StSidebarInfo msg_sidebar_info])) \<and>
         (\<forall>env' e. read_csv env' filename = Inl e \<and> is_FileNotFoundError e \<longrightarrow>
            load_wavelengths lib env' filename =
              (Inr (Some placeholder_labels),
               [StWarning (msg_not_found_pre @ filename @ msg_not_found_post)]) \<and>
            load_wavelengths lib env' filename \<noteq> load_wavelengths lib env filename)"
proof -
  have l: "load_wavelengths lib env filename = (Inr None, [StError msg_not_eleven])"
    using assms by (simp add: load_cases)
  have p: "page lib env filename =
              (Inr (),
               [StSetPageConfig msg_page_title ''wide'', StTitle msg_title] @ shown @
               [StSelectbox msg_select_model available_models, StDivider,
                StError msg_not_eleven, StError msg_cannot_load,
                StSidebarHeader msg_sidebar_header,
                StSidebarWrite (msg_sidebar_url @ API_BASE_URL),
                StSidebarInfo msg_sidebar_info])"
    if "get_available_models env = (Inr available_models, shown)" for available_models shown
    using that l by (simp add: page_def)
  have m: "load_wavelengths lib env' filename =
              (Inr (Some placeholder_labels),
               [StWarning (msg_not_found_pre @ filename @ msg_not_found_post)])"
    if "read_csv env' filename = Inl e" "is_FileNotFoundError e" for env' e
    using that by (simp add: load_cases)
  from l p m show ?thesis by simp
qed

theorem load_wavelengths_wrong_count_witness:
  "load_wavelengths example_lib (example_env\<lparr>read_csv := \<lambda>p. Inr [short_row]\<rparr>) ''data.txt'' =
     (Inr None, [StError msg_not_eleven]) \<and>
   page example_lib (example_env\<lparr>read_csv := \<lambda>p. Inr [short_row]\<rparr>) ''data.txt'' =
     (Inr (),
      [StSetPageConfig msg_page_title ''wide'', StTitle msg_title,
       HttpGet (API_BASE_URL @ ''/models''),
       StError (msg_models_failed @ ''Connection refused''),
       StSelectbox msg_select_model [JStr ''latest''], StDivider,
       StError msg_not_eleven, StError msg_cannot_load,
       StSidebarHeader msg_sidebar_header,
       StSidebarWrite (msg_sidebar_url @ API_BASE_URL),
       StSidebarInfo msg_sidebar_info]) \<and>
   load_wavelengths example_lib example_env ''data.txt'' =
     (Inr (Some placeholder_labels),
      [StWarning (msg_not_found_pre @ ''data.txt'' @ msg_not_found_post)]) \<and>
   load_wavelengths example_lib example_env ''data.txt'' \<noteq>
   load_wavelengths example_lib (example_env\<lparr>read_csv := \<lambda>p. Inr [short_row]\<rparr>) ''data.txt''"
proof -
  have g: "get_available_models (example_env\<lparr>read_csv := \<lambda>p. Inr [short_row]\<rparr>) =
             (Inr [JStr ''latest''],
              [HttpGet (API_BASE_URL @ ''/models''),
               StError (msg_models_failed @ ''Connection refused'')])"
    by (simp add: lister_cases example_env_def is_RequestException_def)
  have r: "read_csv (example_env\<lparr>read_csv := \<lambda>p. Inr [short_row]\<rparr>) ''data.txt'' =
             Inr (short_row # [])" by simp
  have n: "length (drop 1 short_row) \<noteq> 11" by (simp add: short_row_def)
  have e: "read_csv example_env ''data.txt'' =
             Inl (PyExn FileNotFoundError ''No such file or directory'') \<and>
           is_FileNotFoundError (PyExn FileNotFoundError ''No such file or directory'')"
    by (simp add: example_env_def is_FileNotFoundError_def)
  note t = load_wavelengths_wrong_count[OF r n, of example_lib]
  from t have t1: "load_wavelengths example_lib
        (example_env\<lparr>read_csv := \<lambda>p. Inr [short_row]\<rparr>) ''data.txt'' =
        (Inr None, [StError msg_not_eleven])" by (rule conjunct1)
  from t g have t2: "page example_lib (example_env\<lparr>read_csv := \<lambda>p. Inr [short_row]\<rparr>)
        ''data.txt'' =
     (Inr (),
      [StSetPageConfig msg_page_title ''wide'', StTitle msg_title] @
       [HttpGet (API_BASE_URL @ ''/models''),
        StError (msg_models_failed @ ''Connection refused'')] @
      [StSelectbox msg_select_model [JStr ''latest''], StDivider,
       StError msg_not_eleven, StError msg_cannot_load,
       StSidebarHeader msg_sidebar_header,
       StSidebarWrite (msg_sidebar_url @ API_BASE_URL),
       StSidebarInfo msg_sidebar_info])" by blast
  from t e have t3: "load_wavelengths example_lib example_env ''data.txt'' =
     (Inr (Some placeholder_labels),
      [StWarning (msg_not_found_pre @ ''data.txt'' @ msg_not_found_post)]) \<and>
   load_wavelengths example_lib example_env ''data.txt'' \<noteq>
   load_wavelengths example_lib (example_env\<lparr>read_csv := \<lambda>p. Inr [short_row]\<rparr>) ''data.txt''"
    by blast
  from t2 have t2': "page example_lib (example_env\<lparr>read_csv := \<lambda>p. Inr [short_row]\<rparr>)
        ''data.txt'' =
     (Inr (),
      [StSetPageConfig msg_page_title ''wide'', StTitle msg_title,
       HttpGet (API_BASE_URL @ ''/models''),
       StError (msg_models_failed @ ''Connection refused''),
       StSelectbox msg_select_model [JStr ''latest''], StDivider,
       StError msg_not_eleven, StError msg_cannot_load,
       StSidebarHeader msg_sidebar_header,
       StSidebarWrite (msg_sidebar_url @ API_BASE_URL),
       StSidebarInfo msg_sidebar_info])" by (simp only: append_Cons append_Nil)
  from t1 t2' t3 show ?thesis by (intro conjI) blast+
qed

text \<open>
  Claim C6, as the code has it. Every list of labels that \<open>load_wavelengths\<close>
  returns has length 11. A first row with another number of label cells is reported
  as an error and gives \<open>None\<close>: it does not give the placeholder labels, which only
  an exception gives.
\<close>

theorem load_wavelengths_length:
  "(\<forall>labels. fst (load_wavelengths lib env filename) = Inr (Some labels) \<longrightarrow>
      length labels = 11) \<and>
   (\<forall>row rest. read_csv env filename = Inr (row # rest) \<and> length (drop 1 row) \<noteq> 11 \<longrightarrow>
      load_wavelengths lib env filename = (Inr None, [StError msg_not_eleven]) \<and>
      fst (load_wavelengths lib env filename) \<noteq> Inr (Some placeholder_labels))"
proof -
  have a: "length labels = 11" if "fst (load_wavelengths lib env filename) = Inr (Some labels)"
    for labels using that by (rule load_length)
  have b: "load_wavelengths lib env filename = (Inr None, [StError msg_not_eleven])"
    if "read_csv env filename = Inr (row # rest)" "length (drop 1 row) \<noteq> 11" for row rest
    using that by (simp add: load_cases)
  show ?thesis
  proof (intro conjI allI impI)
    fix labels assume "fst (load_wavelengths lib env filename) = Inr (Some labels)"
    then show "length labels = 11" by (rule a)
  next
    fix row rest
    assume h: "read_csv env filename = Inr (row # rest) \<and> length (drop 1 row) \<noteq> 11"
    then show "load_wavelengths lib env filename = (Inr None, [StError msg_not_eleven])"
      using b by blast
  next
    fix row rest
    assume h: "read_csv env filename = Inr (row # rest) \<and> length (drop 1 row) \<noteq> 11"
    then have "load_wavelengths lib env filename = (Inr None, [StError msg_not_eleven])"
      using b by blast
    then show "fst (load_wavelengths lib env filename) \<noteq> Inr (Some placeholder_labels)"
      by simp
  qed
qed

theorem load_wavelengths_length_witness:
  "fst (load_wavelengths example_lib (example_env\<lparr>read_csv := \<lambda>p. Inr [named_row]\<rparr>)
          ''data.txt'') = Inr (Some (drop 1 named_row)) \<and>
   length (drop 1 named_row) = 11 \<and>
   read_csv (example_env\<lparr>read_csv := \<lambda>p. Inr [short_row]\<rparr>) ''data.txt'' = Inr [short_row] \<and>
   length (drop 1 short_row) \<noteq> 11 \<and>
   load_wavelengths example_lib (example_env\<lparr>read_csv := \<lambda>p. Inr [short_row]\<rparr>)
     ''data.txt'' = (Inr None, [StError msg_not_eleven])"
proof -
  have c: "\<not> (\<forall>c \<in> set (drop 1 named_row). \<not> isl (py_float example_lib c))"
    by (simp add: named_row_def example_lib_def)
  have l: "length (drop 1 named_row) = 11" by (simp add: named_row_def)
  have r: "read_csv (example_env\<lparr>read_csv := \<lambda>p. Inr [named_row]\<rparr>) ''data.txt'' =
             Inr (named_row # [])" by simp
  have f: "fst (load_wavelengths example_lib (example_env\<lparr>read_csv := \<lambda>p. Inr [named_row]\<rparr>)
          ''data.txt'') = Inr (Some (drop 1 named_row))"
    by (simp only: load_cases r sum.case list.case l if_not_P[OF c]) simp
  have r': "read_csv (example_env\<lparr>read_csv := \<lambda>p. Inr [short_row]\<rparr>) ''data.txt'' =
             Inr [short_row]" by simp
  have n: "length (drop 1 short_row) \<noteq> 11" by (simp add: short_row_def)
  note t = load_wavelengths_length [of example_lib
      "example_env\<lparr>read_csv := \<lambda>p. Inr [named_row]\<rparr>" "''data.txt''"]
  note t' = load_wavelengths_length [of example_lib
      "example_env\<lparr>read_csv := \<lambda>p. Inr [short_row]\<rparr>" "''data.txt''"]
  from t f have "length (drop 1 named_row) = 11" by blast
  moreover from t' r' n have "load_wavelengths example_lib
     (example_env\<lparr>read_csv := \<lambda>p. Inr [short_row]\<rparr>) ''data.txt'' =
     (Inr None, [StError msg_not_eleven])" by blast
  ultimately show ?thesis using f r' n by (intro conjI)
qed

text \<open>
  A header row with ten label cells gives \<open>None\<close> and the error, not the
  placeholder labels.
\<close>

theorem load_wavelengths_length_counterexample:
  "load_wavelengths example_lib (example_env\<lparr>read_csv := \<lambda>p. Inr [short_row]\<rparr>) ''data.txt'' =
     (Inr None, [StError msg_not_eleven])"
  by (simp add: load_cases short_row_def)

end
